theory Spec2Isabelle
  imports Main "HOL-Library.Word"
begin

section \<open>Python strings\<close>

text \<open>
  A Python \<^verbatim>\<open>str\<close> is a sequence of Unicode code points: \<^verbatim>\<open>len\<close>, slicing and
  \<^verbatim>\<open>strip\<close> all count code points, and the built-in templates of the program hold
  characters beyond Latin-1. A string is therefore a list of code points, and an ASCII
  literal of the source is written \<open>str ''...''\<close>.
\<close>

type_synonym pystr = "nat list"

type_synonym bytes = "8 word list"

definition str :: "string \<Rightarrow> pystr" where
  "str s = map of_char s"

definition nl :: pystr where
  "nl = [10]"

text \<open>The code points for which \<^verbatim>\<open>str.isspace\<close> holds; \<^verbatim>\<open>str.strip()\<close> removes these.\<close>

definition py_isspace :: "nat \<Rightarrow> bool" where
  "py_isspace c \<longleftrightarrow>
     (9 \<le> c \<and> c \<le> 13) \<or> (28 \<le> c \<and> c \<le> 32) \<or> c = 133 \<or> c = 160 \<or> c = 5760 \<or>
     (8192 \<le> c \<and> c \<le> 8202) \<or> c = 8232 \<or> c = 8233 \<or> c = 8239 \<or> c = 8287 \<or> c = 12288"

text \<open>\<^verbatim>\<open>s.strip()\<close>: leading and trailing whitespace removed.\<close>

definition strip :: "pystr \<Rightarrow> pystr" where
  "strip s = rev (dropWhile py_isspace (rev (dropWhile py_isspace s)))"

text \<open>\<^verbatim>\<open>sep.join(xs)\<close>.\<close>

fun join :: "pystr \<Rightarrow> pystr list \<Rightarrow> pystr" where
  "join sep [] = []"
| "join sep [x] = x"
| "join sep (x # y # ys) = x @ sep @ join sep (y # ys)"

text \<open>\<^verbatim>\<open>s[:n]\<close> for a non-negative \<open>n\<close>.\<close>

definition slice_to :: "nat \<Rightarrow> pystr \<Rightarrow> pystr" where
  "slice_to n s = take n s"

text \<open>\<^verbatim>\<open>d.get(k, default)\<close> on a dictionary literal.\<close>

definition dict_get :: "('k \<times> 'v) list \<Rightarrow> 'k \<Rightarrow> 'v \<Rightarrow> 'v" where
  "dict_get d k dflt = (case map_of d k of None \<Rightarrow> dflt | Some v \<Rightarrow> v)"

section \<open>Exceptions\<close>

text \<open>
  An instance of \<^verbatim>\<open>Exception\<close> with the text that \<^verbatim>\<open>str(e)\<close> gives. A call that may raise
  returns \<open>exn + 'a\<close>, with \<open>Inl\<close> for the raise. What \<^verbatim>\<open>except Exception\<close> lets through
  (\<^verbatim>\<open>KeyboardInterrupt\<close>, \<^verbatim>\<open>SystemExit\<close>) ends the script run and is no failure of a call.
\<close>

datatype exn = Exception pystr

fun str_of_exn :: "exn \<Rightarrow> pystr" where
  "str_of_exn (Exception m) = m"

section \<open>Document readers\<close>

text \<open>
  \<^verbatim>\<open>read_docx\<close>: the document is the list of the texts of \<^verbatim>\<open>doc.paragraphs\<close>, in order.
  \<^verbatim>\<open>"\n".join([para.text.strip() for para in doc.paragraphs if para.text.strip()])\<close>
\<close>

definition read_docx :: "pystr list \<Rightarrow> pystr" where
  "read_docx paragraphs = join nl [strip para. para \<leftarrow> paragraphs, strip para \<noteq> []]"

text \<open>
  \<^verbatim>\<open>read_pdf\<close>: the document is the list of what \<^verbatim>\<open>page.extract_text()\<close> gives for each
  page, \<open>None\<close> for Python's \<^verbatim>\<open>None\<close>. A page is kept when that value is truthy.
\<close>

fun truthy :: "pystr option \<Rightarrow> bool" where
  "truthy None = False"
| "truthy (Some t) = (t \<noteq> [])"

definition read_pdf :: "pystr option list \<Rightarrow> pystr" where
  "read_pdf pages = join nl [the page. page \<leftarrow> pages, truthy page]"

text \<open>
  \<^verbatim>\<open>read_pptx\<close>: a slide is the list of its shapes, a shape is \<open>Some text\<close> when it has
  the attribute \<^verbatim>\<open>text\<close> and \<open>None\<close> otherwise. The two loops append to \<^verbatim>\<open>texts\<close>.
\<close>

fun shapes_loop :: "pystr list \<Rightarrow> pystr option list \<Rightarrow> pystr list" where
  "shapes_loop texts [] = texts"
| "shapes_loop texts (None # shapes) = shapes_loop texts shapes"
| "shapes_loop texts (Some t # shapes) = shapes_loop (texts @ [strip t]) shapes"

fun slides_loop :: "pystr list \<Rightarrow> pystr option list list \<Rightarrow> pystr list" where
  "slides_loop texts [] = texts"
| "slides_loop texts (slide # slides) = slides_loop (shapes_loop texts slide) slides"

definition read_pptx :: "pystr option list list \<Rightarrow> pystr" where
  "read_pptx slides = join nl (slides_loop [] slides)"

text \<open>
  \<^verbatim>\<open>read_txt\<close>: \<^verbatim>\<open>file.read().decode("utf-8")\<close>. The codec is a parameter; it raises on
  bytes that are not UTF-8.
\<close>

definition read_txt :: "(bytes \<Rightarrow> exn + pystr) \<Rightarrow> bytes \<Rightarrow> exn + pystr" where
  "read_txt decode_utf8 payload = decode_utf8 payload"

text \<open>
  The extraction as the specification words it for docx: the paragraph texts themselves
  are joined, those whose trimmed text is empty being skipped.
\<close>

definition spec_extract_docx :: "pystr list \<Rightarrow> pystr" where
  "spec_extract_docx paragraphs = join nl (filter (\<lambda>para. strip para \<noteq> []) paragraphs)"

section \<open>Web extractor\<close>

text \<open>
  \<^verbatim>\<open>scrape_website\<close>. The network and the HTML library are parameters:
  \<open>requests_get url\<close> is \<^verbatim>\<open>requests.get(url, timeout=10).text\<close>, and \<open>visible_text\<close>
  is the parse, the removal of script, style and noscript tags and \<^verbatim>\<open>get_text\<close>. Either
  may raise; the \<^verbatim>\<open>except Exception\<close> clause turns the raise into a returned string.
\<close>

definition scrape_error :: "exn \<Rightarrow> pystr" where
  "scrape_error e = str ''Error scraping website: '' @ str_of_exn e"

definition scrape_website ::
  "(pystr \<Rightarrow> exn + pystr) \<Rightarrow> (pystr \<Rightarrow> exn + pystr) \<Rightarrow> pystr \<Rightarrow> pystr" where
  "scrape_website requests_get visible_text url =
     (case requests_get url of
        Inl e \<Rightarrow> scrape_error e
      | Inr response_text \<Rightarrow>
          (case visible_text response_text of
             Inl e \<Rightarrow> scrape_error e
           | Inr text \<Rightarrow> text))"

section \<open>Prompt templates\<close>

definition default_prompts :: "(pystr \<times> pystr) list" where
  "default_prompts =
     [(str ''LinkedIn'',
       [128279] @ str '' LinkedIn Message Prompt:'' @ [10] @
       str ''You are a senior B2B sales strategist. Write a short, human, personalized LinkedIn message. Make it relevant, clear, and rooted in uploaded product content. No buzzwords or filler. Max 70 words.''),
      (str ''WhatsApp'',
       [128172] @ str '' WhatsApp Message Prompt:'' @ [10] @
       str ''Write a casual yet professional WhatsApp message introducing a B2B SaaS product. Keep it brief (max 50 words), friendly, and based only on uploaded content. Don'' @ [8217] @
       str ''t use emojis or sales jargon.''),
      (str ''Email'',
       [9993] @ [65039] @ str '' Email Prompt:'' @ [10] @
       str ''Craft a short outbound B2B email introducing a product. Include a strong opener, clear value prop, 2'' @ [8211] @
       str ''3 features, and a soft CTA. Stay under 140 words. Use uploaded materials only.'')]"

definition filename_map :: "(pystr \<times> pystr) list" where
  "filename_map =
     [(str ''LinkedIn'', str ''linkdln.docx''),
      (str ''WhatsApp'', str ''whatsapp.docx''),
      (str ''Email'', str ''email.docx'')]"

definition format_not_found :: pystr where
  "format_not_found = str ''Message format not found.''"

text \<open>
  \<^verbatim>\<open>load_sales_prompt\<close>. The file system is a parameter: \<open>fs path\<close> is \<open>None\<close> when
  \<^verbatim>\<open>os.path.exists(path)\<close> is false, \<open>Some (Inr paragraphs)\<close> when the path holds a docx
  document with these paragraph texts, and \<open>Some (Inl e)\<close> when the path exists and
  \<^verbatim>\<open>Document(path)\<close> raises.
\<close>

definition load_sales_prompt ::
  "(pystr \<Rightarrow> (exn + pystr list) option) \<Rightarrow> pystr \<Rightarrow> exn + pystr" where
  "load_sales_prompt fs platform =
     (let file_path = dict_get filename_map platform [] in
      case (if file_path \<noteq> [] then fs file_path else None) of
        Some (Inl e) \<Rightarrow> Inl e
      | Some (Inr paragraphs) \<Rightarrow> Inr (read_docx paragraphs)
      | None \<Rightarrow> Inr (dict_get default_prompts platform format_not_found))"

section \<open>The form and the session\<close>

text \<open>
  The two select boxes give one of their listed options. The platform stays a string,
  since \<^verbatim>\<open>load_sales_prompt\<close> takes any string.
\<close>

datatype msg_type = Generic | Personalized

text \<open>
  The variables the generate handler reads. In Generic mode the source leaves
  \<^verbatim>\<open>custom_prompt\<close> at \<^verbatim>\<open>""\<close> and never reads the three personalization fields.
\<close>

record form =
  platform :: pystr
  message_type :: msg_type
  user_content :: pystr
  custom_prompt :: pystr
  recipient_name :: pystr
  company_name :: pystr
  job_title :: pystr

text \<open>\<^verbatim>\<open>st.session_state\<close>: a key that was never assigned is \<open>None\<close>.\<close>

record session_state =
  generated_message :: "pystr option"
  edited_message :: "pystr option"
  show_edit :: "bool option"

text \<open>
  What one click does: the session afterwards, the messages shown (\<^verbatim>\<open>st.error\<close>,
  \<^verbatim>\<open>st.success\<close>, \<^verbatim>\<open>st.warning\<close>, or an exception nothing catches) and the prompts sent
  to \<^verbatim>\<open>model.generate_content\<close>.
\<close>

datatype st_msg = Error pystr | Success pystr | Warning pystr | Uncaught exn

record run =
  session :: session_state
  shown :: "st_msg list"
  calls :: "pystr list"

section \<open>Prompt composition\<close>

datatype prompt_shape = GenericShape | CustomShape | StructuredShape

text \<open>
  The conditions of the chain \<^verbatim>\<open>if message_type == "Generic"\<close> / \<^verbatim>\<open>elif custom_prompt\<close> /
  \<^verbatim>\<open>else\<close>, in the source's order. The second tests the raw string.
\<close>

definition prompt_branch :: "msg_type \<Rightarrow> pystr \<Rightarrow> prompt_shape" where
  "prompt_branch mt cp =
     (if mt = Generic then GenericShape
      else if cp \<noteq> [] then CustomShape
      else StructuredShape)"

definition final_prompt :: "form \<Rightarrow> pystr \<Rightarrow> pystr" where
  "final_prompt f prompt_template =
     (case prompt_branch (message_type f) (custom_prompt f) of
        GenericShape \<Rightarrow>
          prompt_template @ nl @ nl @
          str ''Generate a **generic '' @ platform f @ str '' message** using this content:'' @
          nl @ nl @ slice_to 10000 (user_content f)
      | CustomShape \<Rightarrow>
          custom_prompt f @ nl @ nl @
          str ''(Here is some background info to help craft the '' @ platform f @
          str '' message:)'' @ nl @ nl @ slice_to 10000 (user_content f)
      | StructuredShape \<Rightarrow>
          prompt_template @ nl @ nl @
          str ''Generate a **personalized '' @ platform f @ str '' message** for:'' @ nl @
          str ''Name: '' @ recipient_name f @ nl @
          str ''Company: '' @ company_name f @ nl @
          str ''Job Title: '' @ job_title f @ nl @ nl @
          str ''Background:'' @ nl @ slice_to 10000 (user_content f))"

section \<open>The generate button\<close>

definition missing_input_msg :: pystr where
  "missing_input_msg =
     [10071] @ str '' Please upload a document or enter a custom prompt before generating the message.''"

definition missing_names_msg :: pystr where
  "missing_names_msg =
     [10071] @ str '' Please fill in recipient name and company name for a personalized message.''"

text \<open>
  The handler of the generate button. \<open>generate_content p\<close> is
  \<^verbatim>\<open>model.generate_content(p).text\<close>, or the exception raised on the way.
  \<^verbatim>\<open>load_sales_prompt\<close> is called outside the \<^verbatim>\<open>try\<close>, so its exception is not caught.
\<close>

definition generate_button ::
  "(pystr \<Rightarrow> (exn + pystr list) option) \<Rightarrow> (pystr \<Rightarrow> exn + pystr) \<Rightarrow>
   form \<Rightarrow> session_state \<Rightarrow> run" where
  "generate_button fs generate_content f st =
     (if strip (user_content f) = [] \<and> strip (custom_prompt f) = [] then
        \<lparr>session = st, shown = [Error missing_input_msg], calls = []\<rparr>
      else if message_type f = Personalized \<and>
              (strip (recipient_name f) = [] \<or> strip (company_name f) = []) then
        \<lparr>session = st, shown = [Error missing_names_msg], calls = []\<rparr>
      else
        (case load_sales_prompt fs (platform f) of
           Inl e \<Rightarrow> \<lparr>session = st, shown = [Uncaught e], calls = []\<rparr>
         | Inr prompt_template \<Rightarrow>
             (case generate_content (final_prompt f prompt_template) of
                Inr text \<Rightarrow>
                  \<lparr>session = st\<lparr>generated_message := Some text,
                                  edited_message := Some [],
                                  show_edit := Some True\<rparr>,
                   shown = [Success ([9989] @ str '' '' @ platform f @ str '' Message Generated!'')],
                   calls = [final_prompt f prompt_template]\<rparr>
              | Inl e \<Rightarrow>
                  \<lparr>session = st\<lparr>generated_message := Some []\<rparr>,
                   shown = [Error (str ''Generation failed: '' @ str_of_exn e)],
                   calls = [final_prompt f prompt_template]\<rparr>)))"

section \<open>The edit button\<close>

definition edit_prompt :: "pystr \<Rightarrow> pystr \<Rightarrow> pystr \<Rightarrow> pystr" where
  "edit_prompt platform_name edit_instruction generated =
     str ''Please revise the following '' @ platform_name @
     str '' message based on this instruction:'' @ nl @
     strip edit_instruction @ nl @ nl @
     str ''Original Message:'' @ nl @ generated"

text \<open>
  The edit button is drawn only when \<^verbatim>\<open>generated_message\<close> and \<^verbatim>\<open>show_edit\<close> are both
  truthy; without it no click takes place.
\<close>

definition edit_available :: "session_state \<Rightarrow> bool" where
  "edit_available st \<longleftrightarrow> truthy (generated_message st) \<and> show_edit st = Some True"

definition edit_button ::
  "(pystr \<Rightarrow> exn + pystr) \<Rightarrow> pystr \<Rightarrow> pystr \<Rightarrow> session_state \<Rightarrow> run" where
  "edit_button generate_content platform_name edit_instruction st =
     (case generated_message st of
        None \<Rightarrow> \<lparr>session = st, shown = [], calls = []\<rparr>
      | Some generated \<Rightarrow>
          (if edit_available st then
             (if strip edit_instruction \<noteq> [] then
                (case generate_content (edit_prompt platform_name edit_instruction generated) of
                   Inr text \<Rightarrow>
                     \<lparr>session = st\<lparr>edited_message := Some text\<rparr>,
                      shown = [Success ([9989] @ str '' Edited Message Ready'')],
                      calls = [edit_prompt platform_name edit_instruction generated]\<rparr>
                 | Inl e \<Rightarrow>
                     \<lparr>session = st,
                      shown = [Error (str ''Editing failed: '' @ str_of_exn e)],
                      calls = [edit_prompt platform_name edit_instruction generated]\<rparr>)
              else
                \<lparr>session = st,
                 shown = [Warning (str ''Please provide some instructions before editing.'')],
                 calls = []\<rparr>)
           else \<lparr>session = st, shown = [], calls = []\<rparr>))"

section \<open>Facts about strings\<close>

lemma str_inject: "str a = str b \<longleftrightarrow> a = b"
  unfolding str_def by (simp add: inj_map_eq_map inj_of_char)

lemma strip_eq_Nil_iff: "strip s = [] \<longleftrightarrow> (\<forall>c\<in>set s. py_isspace c)"
proof -
  have "strip s = [] \<longleftrightarrow> (\<forall>c\<in>set (dropWhile py_isspace s). py_isspace c)"
    by (simp add: strip_def dropWhile_eq_Nil_conv)
  also have "\<dots> \<longleftrightarrow> dropWhile py_isspace s = []"
    by (metis hd_dropWhile list.set_sel(1) all_not_in_conv set_empty)
  also have "\<dots> \<longleftrightarrow> (\<forall>c\<in>set s. py_isspace c)"
    by (simp add: dropWhile_eq_Nil_conv)
  finally show ?thesis .
qed

section \<open>Extraction\<close>

lemma shapes_loop_eq: "shapes_loop texts shapes = texts @ [strip t. Some t \<leftarrow> shapes]"
proof (induction shapes arbitrary: texts)
  case Nil
  show ?case by simp
next
  case (Cons sh shapes)
  then show ?case by (cases sh) simp_all
qed

lemma slides_loop_eq:
  "slides_loop texts slides = texts @ [strip t. Some t \<leftarrow> concat slides]"
  by (induction slides arbitrary: texts) (simp_all add: shapes_loop_eq)

lemma pdf_kept: "[the page. page \<leftarrow> pages, truthy page] = [t. Some t \<leftarrow> pages, t \<noteq> []]"
proof (induction pages)
  case Nil
  show ?case by simp
next
  case (Cons page pages)
  then show ?case by (cases page) simp_all
qed

lemma docx_kept:
  "[strip para. para \<leftarrow> paragraphs, strip para \<noteq> []] =
   filter (\<lambda>t. t \<noteq> []) (map strip paragraphs)"
  by (induction paragraphs) simp_all

text \<open>
  Claim C6, as the specification words it, fails for docx: the specification joins the
  paragraph texts, the code joins the trimmed paragraph texts. A paragraph \<open>'' a''\<close> is
  extracted as \<open>''a''\<close>.
\<close>

theorem docx_untrimmed_counterexample:
  "read_docx [str '' a''] \<noteq> spec_extract_docx [str '' a'']"
  by (simp add: read_docx_def spec_extract_docx_def strip_def str_def py_isspace_def nl_def)

text \<open>
  Claim C6, amended: docx gives the newline-join of the trimmed paragraph texts in document
  order, those that are empty after trimming skipped; pdf gives the newline-join of the
  page texts in page order, pages with no text skipped; pptx gives the newline-join, over
  slides in order and shapes in order, of the trimmed text of every shape that has text,
  empty ones included; txt gives the UTF-8 decoding of the bytes as it is.
\<close>

theorem extract_by_kind:
  "read_docx paragraphs = join nl (filter (\<lambda>t. t \<noteq> []) (map strip paragraphs)) \<and>
   read_pdf pages = join nl [t. Some t \<leftarrow> pages, t \<noteq> []] \<and>
   read_pptx slides = join nl [strip t. Some t \<leftarrow> concat slides] \<and>
   read_txt decode_utf8 payload = decode_utf8 payload"
  unfolding read_docx_def read_pdf_def read_pptx_def read_txt_def
  by (simp only: docx_kept pdf_kept slides_loop_eq append_Nil simp_thms)

section \<open>Prompt shapes\<close>

lemma differ_before_suffix: "a \<noteq> b \<Longrightarrow> xs @ a # s \<noteq> ys @ b # s"
  by (simp add: append_eq_append_conv)

lemma generic_prompt_eq:
  "message_type f = Generic \<Longrightarrow>
   final_prompt f t =
     t @ nl @ nl @ str ''Generate a **generic '' @ platform f @
     str '' message** using this content:'' @ nl @ nl @ take 10000 (user_content f)"
  by (simp add: final_prompt_def prompt_branch_def slice_to_def)

lemma structured_prompt_eq:
  "message_type f = Personalized \<Longrightarrow> custom_prompt f = [] \<Longrightarrow>
   final_prompt f t =
     t @ nl @ nl @ str ''Generate a **personalized '' @ platform f @
     str '' message** for:'' @ nl @
     str ''Name: '' @ recipient_name f @ nl @
     str ''Company: '' @ company_name f @ nl @
     str ''Job Title: '' @ job_title f @ nl @ nl @
     str ''Background:'' @ nl @ take 10000 (user_content f)"
  by (simp add: final_prompt_def prompt_branch_def slice_to_def)

lemma custom_prompt_eq:
  "message_type f = Personalized \<Longrightarrow> custom_prompt f \<noteq> [] \<Longrightarrow>
   final_prompt f t =
     custom_prompt f @ nl @ nl @
     str ''(Here is some background info to help craft the '' @ platform f @
     str '' message:)'' @ nl @ nl @ take 10000 (user_content f)"
  by (simp add: final_prompt_def prompt_branch_def slice_to_def)

lemma generic_differs_from_personalized:
  "final_prompt (f\<lparr>message_type := Generic\<rparr>) t \<noteq>
   final_prompt (f\<lparr>message_type := Personalized\<rparr>) t"
proof (cases "custom_prompt f = []")
  case True
  then show ?thesis
    by (simp add: generic_prompt_eq structured_prompt_eq) (simp add: str_def)
next
  case False
  have g: "final_prompt (f\<lparr>message_type := Generic\<rparr>) t =
      (t @ nl @ nl @ str ''Generate a **generic '' @ platform f @
       str '' message** using this content'') @
      58 # (nl @ nl @ take 10000 (user_content f))"
    by (simp add: generic_prompt_eq) (simp add: str_def)
  have c: "final_prompt (f\<lparr>message_type := Personalized\<rparr>) t =
      (custom_prompt f @ nl @ nl @
       str ''(Here is some background info to help craft the '' @ platform f @
       str '' message:'') @
      41 # (nl @ nl @ take 10000 (user_content f))"
    using False by (simp add: custom_prompt_eq) (simp add: str_def)
  show ?thesis
    unfolding g c by (rule differ_before_suffix) simp
qed

lemma custom_differs_from_structured:
  assumes "custom_prompt f \<noteq> []"
  shows "final_prompt (f\<lparr>message_type := Personalized\<rparr>) t \<noteq>
         final_prompt (f\<lparr>message_type := Personalized, custom_prompt := []\<rparr>) t"
proof -
  have c: "final_prompt (f\<lparr>message_type := Personalized\<rparr>) t =
      (custom_prompt f @ nl @ nl @
       str ''(Here is some background info to help craft the '' @ platform f @
       str '' message:)'') @
      10 # (nl @ take 10000 (user_content f))"
    using assms by (simp add: custom_prompt_eq) (simp add: str_def nl_def)
  have s: "final_prompt (f\<lparr>message_type := Personalized, custom_prompt := []\<rparr>) t =
      (t @ nl @ nl @ str ''Generate a **personalized '' @ platform f @
       str '' message** for:'' @ nl @
       str ''Name: '' @ recipient_name f @ nl @
       str ''Company: '' @ company_name f @ nl @
       str ''Job Title: '' @ job_title f @ nl @ nl @
       str ''Background'') @
      58 # (nl @ take 10000 (user_content f))"
    by (simp add: structured_prompt_eq) (simp add: str_def)
  show ?thesis
    unfolding c s by (rule differ_before_suffix) simp
qed

text \<open>
  Claim C4: the shape of the prompt is decided by the mode and the raw custom instruction,
  and the three cases cover every input and exclude each other. Generic mode gives the
  generic prompt: template, the generic request and the truncated background.
  Personalized mode with an empty custom instruction gives the structured prompt:
  template, the personalized request, name, company, job title and the truncated
  background. Personalized mode with a non-empty custom instruction gives the custom
  prompt: the custom instruction, the background note and the truncated background, the
  same for every template. On the same inputs the prompt of Generic mode differs from
  that of Personalized mode, and the custom prompt differs from the structured one.
\<close>

theorem prompt_shape_selection:
  "(prompt_branch mt cp = GenericShape \<longleftrightarrow> mt = Generic) \<and>
   (prompt_branch mt cp = StructuredShape \<longleftrightarrow> mt = Personalized \<and> cp = []) \<and>
   (prompt_branch mt cp = CustomShape \<longleftrightarrow> mt = Personalized \<and> cp \<noteq> []) \<and>
   (message_type f = Generic \<longrightarrow>
      final_prompt f t =
        t @ nl @ nl @ str ''Generate a **generic '' @ platform f @
        str '' message** using this content:'' @ nl @ nl @ take 10000 (user_content f)) \<and>
   (message_type f = Personalized \<and> custom_prompt f = [] \<longrightarrow>
      final_prompt f t =
        t @ nl @ nl @ str ''Generate a **personalized '' @ platform f @
        str '' message** for:'' @ nl @
        str ''Name: '' @ recipient_name f @ nl @
        str ''Company: '' @ company_name f @ nl @
        str ''Job Title: '' @ job_title f @ nl @ nl @
        str ''Background:'' @ nl @ take 10000 (user_content f)) \<and>
   (message_type f = Personalized \<and> custom_prompt f \<noteq> [] \<longrightarrow>
      final_prompt f t =
        custom_prompt f @ nl @ nl @
        str ''(Here is some background info to help craft the '' @ platform f @
        str '' message:)'' @ nl @ nl @ take 10000 (user_content f) \<and>
      final_prompt f t = final_prompt f t') \<and>
   final_prompt (f\<lparr>message_type := Generic\<rparr>) t \<noteq>
     final_prompt (f\<lparr>message_type := Personalized\<rparr>) t \<and>
   (custom_prompt f \<noteq> [] \<longrightarrow>
      final_prompt (f\<lparr>message_type := Personalized\<rparr>) t \<noteq>
        final_prompt (f\<lparr>message_type := Personalized, custom_prompt := []\<rparr>) t)"
proof -
  have tags: "(prompt_branch mt cp = GenericShape \<longleftrightarrow> mt = Generic) \<and>
      (prompt_branch mt cp = StructuredShape \<longleftrightarrow> mt = Personalized \<and> cp = []) \<and>
      (prompt_branch mt cp = CustomShape \<longleftrightarrow> mt = Personalized \<and> cp \<noteq> [])"
    by (cases mt) (auto simp: prompt_branch_def)
  have same: "final_prompt f t = final_prompt f t'"
    if "message_type f = Personalized" "custom_prompt f \<noteq> []"
    using that by (simp add: custom_prompt_eq)
  from tags generic_prompt_eq [of f t] structured_prompt_eq [of f t] custom_prompt_eq [of f t]
    same generic_differs_from_personalized [of f t] custom_differs_from_structured [of f t]
  show ?thesis by blast
qed

theorem prompt_shape_selection_witness:
  "final_prompt
     \<lparr>platform = str ''Email'', message_type = Generic,
      user_content = str ''We sell analytics software.'', custom_prompt = [],
      recipient_name = [], company_name = [], job_title = []\<rparr>
     (str ''TEMPLATE'') =
   str ''TEMPLATE'' @ nl @ nl @
   str ''Generate a **generic Email message** using this content:'' @ nl @ nl @
   str ''We sell analytics software.'' \<and>
   final_prompt
     \<lparr>platform = str ''Email'', message_type = Personalized,
      user_content = str ''We sell analytics software.'', custom_prompt = [],
      recipient_name = str ''Ana'', company_name = str ''Acme'', job_title = []\<rparr>
     (str ''TEMPLATE'') =
   str ''TEMPLATE'' @ nl @ nl @
   str ''Generate a **personalized Email message** for:'' @ nl @
   str ''Name: Ana'' @ nl @ str ''Company: Acme'' @ nl @ str ''Job Title: '' @ nl @ nl @
   str ''Background:'' @ nl @ str ''We sell analytics software.'' \<and>
   final_prompt
     \<lparr>platform = str ''Email'', message_type = Personalized,
      user_content = str ''We sell analytics software.'', custom_prompt = str ''x'',
      recipient_name = str ''Ana'', company_name = str ''Acme'', job_title = []\<rparr>
     (str ''TEMPLATE'') =
   str ''x'' @ nl @ nl @ str ''(Here is some background info to help craft the Email message:)'' @
   nl @ nl @ str ''We sell analytics software.'' \<and>
   final_prompt
     \<lparr>platform = str ''Email'', message_type = Personalized,
      user_content = str ''We sell analytics software.'', custom_prompt = str ''x'',
      recipient_name = str ''Ana'', company_name = str ''Acme'', job_title = []\<rparr>
     (str ''TEMPLATE'') \<noteq>
   final_prompt
     \<lparr>platform = str ''Email'', message_type = Personalized,
      user_content = str ''We sell analytics software.'', custom_prompt = [],
      recipient_name = str ''Ana'', company_name = str ''Acme'', job_title = []\<rparr>
     (str ''TEMPLATE'') \<and>
   prompt_branch Generic [] = GenericShape \<and>
   prompt_branch Personalized [] = StructuredShape \<and>
   prompt_branch Personalized (str ''x'') = CustomShape"
  using prompt_shape_selection [where mt = Generic and cp = "[]" and
      f = "\<lparr>platform = str ''Email'', message_type = Generic,
        user_content = str ''We sell analytics software.'', custom_prompt = [],
        recipient_name = [], company_name = [], job_title = []\<rparr>"
      and t = "str ''TEMPLATE''"]
    prompt_shape_selection [where mt = Personalized and cp = "[]" and
      f = "\<lparr>platform = str ''Email'', message_type = Personalized,
        user_content = str ''We sell analytics software.'', custom_prompt = [],
        recipient_name = str ''Ana'', company_name = str ''Acme'', job_title = []\<rparr>"
      and t = "str ''TEMPLATE''"]
    prompt_shape_selection [where mt = Personalized and cp = "str ''x''" and
      f = "\<lparr>platform = str ''Email'', message_type = Personalized,
        user_content = str ''We sell analytics software.'', custom_prompt = str ''x'',
        recipient_name = str ''Ana'', company_name = str ''Acme'', job_title = []\<rparr>"
      and t = "str ''TEMPLATE''"]
  by (simp add: str_def)

text \<open>
  Claim C5: in each of the three shapes the prompt is a head that does not depend on the
  background, followed by the first 10,000 characters of the background: the whole of a
  background of at most 10,000 characters, and of a longer one exactly its first 10,000
  characters, position by position.
\<close>

theorem background_truncated:
  "final_prompt (f\<lparr>user_content := uc\<rparr>) t =
     final_prompt (f\<lparr>user_content := []\<rparr>) t @ slice_to 10000 uc \<and>
   (length uc \<le> 10000 \<longrightarrow> slice_to 10000 uc = uc) \<and>
   (10000 < length uc \<longrightarrow>
      length (slice_to 10000 uc) = 10000 \<and> (\<forall>i<10000. slice_to 10000 uc ! i = uc ! i))"
  by (simp add: final_prompt_def slice_to_def split: prompt_shape.splits)

theorem background_truncated_witness:
  "slice_to 10000 (str ''We sell analytics software.'') = str ''We sell analytics software.'' \<and>
   length (slice_to 10000 (replicate 10000 97 @ replicate 5000 98)) = 10000 \<and>
   slice_to 10000 (replicate 10000 97 @ replicate 5000 98) ! 9999 = 97 \<and>
   final_prompt
     \<lparr>platform = str ''Email'', message_type = Generic,
      user_content = replicate 10000 97 @ replicate 5000 98,
      custom_prompt = [], recipient_name = [], company_name = [], job_title = []\<rparr> [] =
   final_prompt
     \<lparr>platform = str ''Email'', message_type = Generic, user_content = [],
      custom_prompt = [], recipient_name = [], company_name = [], job_title = []\<rparr> [] @
   slice_to 10000 (replicate 10000 97 @ replicate 5000 98)"
  using background_truncated [where
      f = "\<lparr>platform = str ''Email'', message_type = Generic, user_content = [],
        custom_prompt = [], recipient_name = [], company_name = [], job_title = []\<rparr>"
      and uc = "replicate 10000 97 @ replicate 5000 98" and t = "[]"]
    background_truncated [where
      f = "\<lparr>platform = str ''Email'', message_type = Generic, user_content = [],
        custom_prompt = [], recipient_name = [], company_name = [], job_title = []\<rparr>"
      and uc = "str ''We sell analytics software.''" and t = "[]"]
  by (simp add: str_def nth_append)

section \<open>Template resolution\<close>

lemma filename_nonempty: "map_of filename_map p = Some path \<Longrightarrow> path \<noteq> []"
  by (auto simp: filename_map_def str_def split: if_splits)

lemma filename_dom:
  "map_of filename_map p = None \<longleftrightarrow> p \<notin> {str ''LinkedIn'', str ''WhatsApp'', str ''Email''}"
  by (simp add: filename_map_def)

lemma default_dom:
  "map_of default_prompts p = None \<longleftrightarrow> p \<notin> {str ''LinkedIn'', str ''WhatsApp'', str ''Email''}"
  by (simp add: default_prompts_def)

text \<open>
  Claim C9: for a platform with an override path, a document at that path gives its
  extracted text and no file there gives the built-in default of the platform; LinkedIn,
  WhatsApp and Email each have a path (linkdln.docx, whatsapp.docx, email.docx) and a
  default; any other platform string gives \<open>''Message format not found.''\<close>, whatever
  the file system holds.
\<close>

theorem template_resolution:
  "(map_of filename_map p = Some path \<and> fs path = Some (Inr paragraphs) \<longrightarrow>
      load_sales_prompt fs p = Inr (read_docx paragraphs)) \<and>
   (map_of filename_map p = Some path \<and> fs path = None \<and>
    map_of default_prompts p = Some d \<longrightarrow> load_sales_prompt fs p = Inr d) \<and>
   (p \<notin> {str ''LinkedIn'', str ''WhatsApp'', str ''Email''} \<longrightarrow>
      load_sales_prompt fs p = Inr (str ''Message format not found.'')) \<and>
   (p \<in> {str ''LinkedIn'', str ''WhatsApp'', str ''Email''} \<longrightarrow>
      map_of filename_map p \<noteq> None \<and> map_of default_prompts p \<noteq> None) \<and>
   map_of filename_map (str ''LinkedIn'') = Some (str ''linkdln.docx'') \<and>
   map_of filename_map (str ''WhatsApp'') = Some (str ''whatsapp.docx'') \<and>
   map_of filename_map (str ''Email'') = Some (str ''email.docx'')"
proof -
  have a: "load_sales_prompt fs p = Inr (read_docx paragraphs)"
    if "map_of filename_map p = Some path" "fs path = Some (Inr paragraphs)"
    using that filename_nonempty [OF that(1)]
    by (simp add: load_sales_prompt_def dict_get_def)
  have b: "load_sales_prompt fs p = Inr d"
    if "map_of filename_map p = Some path" "fs path = None" "map_of default_prompts p = Some d"
    using that by (simp add: load_sales_prompt_def dict_get_def)
  have c: "load_sales_prompt fs p = Inr (str ''Message format not found.'')"
    if "p \<notin> {str ''LinkedIn'', str ''WhatsApp'', str ''Email''}"
  proof -
    from that have "map_of filename_map p = None" "map_of default_prompts p = None"
      by (simp_all only: filename_dom default_dom not_False_eq_True)
    then show ?thesis
      by (simp add: load_sales_prompt_def dict_get_def format_not_found_def)
  qed
  have d: "map_of filename_map p \<noteq> None \<and> map_of default_prompts p \<noteq> None"
    if "p \<in> {str ''LinkedIn'', str ''WhatsApp'', str ''Email''}"
    using that by (simp only: filename_dom default_dom not_not simp_thms)
  have e: "map_of filename_map (str ''LinkedIn'') = Some (str ''linkdln.docx'')"
    "map_of filename_map (str ''WhatsApp'') = Some (str ''whatsapp.docx'')"
    "map_of filename_map (str ''Email'') = Some (str ''email.docx'')"
    by (simp_all add: filename_map_def str_inject)
  from a b c d e show ?thesis by blast
qed

theorem template_resolution_witness:
  "load_sales_prompt ((\<lambda>path. None)(str ''email.docx'' \<mapsto> Inr [str '' Be brief. '', str ''  '']))
     (str ''Email'') = Inr (str ''Be brief.'') \<and>
   load_sales_prompt (\<lambda>path. None) (str ''Email'') =
     Inr ([9993] @ [65039] @ str '' Email Prompt:'' @ [10] @
          str ''Craft a short outbound B2B email introducing a product. Include a strong opener, clear value prop, 2'' @ [8211] @
          str ''3 features, and a soft CTA. Stay under 140 words. Use uploaded materials only.'') \<and>
   load_sales_prompt (\<lambda>path. Some (Inr [str ''Be brief.''])) (str ''SMS'') =
     Inr (str ''Message format not found.'')"
proof -
  have path: "map_of filename_map (str ''Email'') = Some (str ''email.docx'')"
    by (simp add: filename_map_def str_inject)
  have dflt: "map_of default_prompts (str ''Email'') =
      Some ([9993] @ [65039] @ str '' Email Prompt:'' @ [10] @
          str ''Craft a short outbound B2B email introducing a product. Include a strong opener, clear value prop, 2'' @ [8211] @
          str ''3 features, and a soft CTA. Stay under 140 words. Use uploaded materials only.'')"
    by (simp add: default_prompts_def str_inject)
  have sms: "str ''SMS'' \<notin> {str ''LinkedIn'', str ''WhatsApp'', str ''Email''}"
    by (simp add: str_inject)
  have doc: "read_docx [str '' Be brief. '', str ''  ''] = str ''Be brief.''"
    by (simp add: read_docx_def strip_def str_def py_isspace_def)
  show ?thesis
    using template_resolution [where p = "str ''Email''" and path = "str ''email.docx''"
        and fs = "(\<lambda>path. None)(str ''email.docx'' \<mapsto> Inr [str '' Be brief. '', str ''  ''])"
        and paragraphs = "[str '' Be brief. '', str ''  '']"]
      template_resolution [where p = "str ''Email''" and path = "str ''email.docx''"
        and fs = "\<lambda>path. None" and d = "[9993] @ [65039] @ str '' Email Prompt:'' @ [10] @
          str ''Craft a short outbound B2B email introducing a product. Include a strong opener, clear value prop, 2'' @ [8211] @
          str ''3 features, and a soft CTA. Stay under 140 words. Use uploaded materials only.''"]
      template_resolution [where p = "str ''SMS''"
        and fs = "\<lambda>path. Some (Inr [str ''Be brief.''])"]
      path dflt sms doc
    by simp
qed

section \<open>Generate actions\<close>

lemma missing_msgs_differ: "missing_input_msg \<noteq> missing_names_msg"
  by (simp add: missing_input_msg_def missing_names_msg_def str_def)

lemma failure_msg_differs: "str ''Generation failed: '' @ m \<noteq> missing_names_msg"
  by (simp add: missing_names_msg_def str_def)

lemma generic_email_call:
  "calls
     (generate_button (\<lambda>path. None) gc
        \<lparr>platform = str ''Email'', message_type = Generic,
         user_content = str ''We sell analytics software.'', custom_prompt = [],
         recipient_name = [], company_name = [], job_title = []\<rparr> st) =
   [final_prompt
      \<lparr>platform = str ''Email'', message_type = Generic,
       user_content = str ''We sell analytics software.'', custom_prompt = [],
       recipient_name = [], company_name = [], job_title = []\<rparr>
      (dict_get default_prompts (str ''Email'') format_not_found)]"
  by (simp add: generate_button_def strip_eq_Nil_iff load_sales_prompt_def
      dict_get_def filename_map_def str_inject split: sum.splits)
     (simp add: str_def py_isspace_def)

text \<open>
  Claim C1, as the specification words it, fails: when the generation call raises, the
  handler assigns the empty string to the generated slot, so a message generated before
  is lost.
\<close>

theorem generation_failure_counterexample:
  "session
     (generate_button (\<lambda>path. None) (\<lambda>p. Inl (Exception (str ''quota exceeded'')))
        \<lparr>platform = str ''Email'', message_type = Generic,
         user_content = str ''We sell analytics software.'', custom_prompt = [],
         recipient_name = [], company_name = [], job_title = []\<rparr>
        \<lparr>generated_message = Some (str ''Hello''), edited_message = Some (str ''Hi''),
         show_edit = Some True\<rparr>) \<noteq>
   \<lparr>generated_message = Some (str ''Hello''), edited_message = Some (str ''Hi''),
    show_edit = Some True\<rparr>"
  by (simp add: generate_button_def strip_eq_Nil_iff py_isspace_def load_sales_prompt_def
      dict_get_def filename_map_def str_inject) (simp add: str_def)

text \<open>
  Claim C1, amended: when the generation call of a generate action raises, the error is
  shown as \<open>Generation failed:\<close> followed by its text, the generated slot is set to the
  empty string, and the edited slot and the edit flag are left as they were.
\<close>

theorem generation_failure_state:
  assumes "calls (generate_button fs gc f st) = [p]" and "gc p = Inl e"
  shows "generate_button fs gc f st =
           \<lparr>session = st\<lparr>generated_message := Some []\<rparr>,
            shown = [Error (str ''Generation failed: '' @ str_of_exn e)],
            calls = [p]\<rparr> \<and>
         edited_message (session (generate_button fs gc f st)) = edited_message st \<and>
         show_edit (session (generate_button fs gc f st)) = show_edit st"
  using assms unfolding generate_button_def
  by (auto split: if_splits sum.splits)

theorem generation_failure_state_witness:
  "generate_button (\<lambda>path. None) (\<lambda>p. Inl (Exception (str ''quota exceeded'')))
     \<lparr>platform = str ''Email'', message_type = Generic,
      user_content = str ''We sell analytics software.'', custom_prompt = [],
      recipient_name = [], company_name = [], job_title = []\<rparr>
     \<lparr>generated_message = Some (str ''Hello''), edited_message = Some (str ''Hi''),
      show_edit = Some True\<rparr> =
   \<lparr>session = \<lparr>generated_message = Some [], edited_message = Some (str ''Hi''),
                show_edit = Some True\<rparr>,
    shown = [Error (str ''Generation failed: quota exceeded'')],
    calls = [final_prompt
      \<lparr>platform = str ''Email'', message_type = Generic,
       user_content = str ''We sell analytics software.'', custom_prompt = [],
       recipient_name = [], company_name = [], job_title = []\<rparr>
      (dict_get default_prompts (str ''Email'') format_not_found)]\<rparr>"
  using generation_failure_state [where gc = "\<lambda>p. Inl (Exception (str ''quota exceeded''))"
        and e = "Exception (str ''quota exceeded'')"
        and st = "\<lparr>generated_message = Some (str ''Hello''),
                     edited_message = Some (str ''Hi''), show_edit = Some True\<rparr>",
      OF generic_email_call]
  by (simp add: str_def)

text \<open>
  Claim C2, as the specification words it, fails: a Personalized action with a custom
  instruction and empty name fields is rejected with the names message, and no prompt is
  sent.
\<close>

theorem names_required_counterexample:
  "generate_button (\<lambda>path. None) (\<lambda>p. Inr (str ''Dear Ana''))
     \<lparr>platform = str ''LinkedIn'', message_type = Personalized,
      user_content = str ''We sell analytics software.'',
      custom_prompt = str ''Write a warm note to a CMO.'',
      recipient_name = [], company_name = [], job_title = []\<rparr>
     \<lparr>generated_message = None, edited_message = None, show_edit = None\<rparr> =
   \<lparr>session = \<lparr>generated_message = None, edited_message = None, show_edit = None\<rparr>,
    shown = [Error missing_names_msg], calls = []\<rparr>"
  by (simp add: generate_button_def strip_eq_Nil_iff py_isspace_def) (simp add: str_def)

text \<open>
  Claim C2, amended: the names message is shown exactly when the first check passes, the
  mode is Personalized and the recipient name or the company name is empty after
  trimming, with or without a custom instruction; the action then sends nothing and leaves
  the session as it was. A Generic action never asks for the two fields.
\<close>

theorem names_required_when_personalized:
  "(shown (generate_button fs gc f st) = [Error missing_names_msg] \<longleftrightarrow>
      \<not> (strip (user_content f) = [] \<and> strip (custom_prompt f) = []) \<and>
      message_type f = Personalized \<and>
      (strip (recipient_name f) = [] \<or> strip (company_name f) = [])) \<and>
   (shown (generate_button fs gc f st) = [Error missing_names_msg] \<longrightarrow>
      calls (generate_button fs gc f st) = [] \<and> session (generate_button fs gc f st) = st)"
  unfolding generate_button_def
  by (auto simp: missing_msgs_differ failure_msg_differs split: sum.splits)

theorem names_required_when_personalized_witness:
  "shown
     (generate_button (\<lambda>path. None) (\<lambda>p. Inr (str ''Dear Ana''))
        \<lparr>platform = str ''Email'', message_type = Personalized, user_content = [],
         custom_prompt = str ''x'', recipient_name = str ''Ana'', company_name = str '' '',
         job_title = []\<rparr>
        \<lparr>generated_message = None, edited_message = None, show_edit = None\<rparr>) =
   [Error missing_names_msg] \<and>
   shown
     (generate_button (\<lambda>path. None) (\<lambda>p. Inr (str ''Dear Ana''))
        \<lparr>platform = str ''Email'', message_type = Generic, user_content = str ''x'',
         custom_prompt = [], recipient_name = [], company_name = [], job_title = []\<rparr>
        \<lparr>generated_message = None, edited_message = None, show_edit = None\<rparr>) \<noteq>
   [Error missing_names_msg]"
  using names_required_when_personalized [where fs = "\<lambda>path. None"
      and gc = "\<lambda>p. Inr (str ''Dear Ana'')"
      and f = "\<lparr>platform = str ''Email'', message_type = Personalized, user_content = [],
         custom_prompt = str ''x'', recipient_name = str ''Ana'', company_name = str '' '',
         job_title = []\<rparr>"
      and st = "\<lparr>generated_message = None, edited_message = None, show_edit = None\<rparr>"]
    names_required_when_personalized [where fs = "\<lambda>path. None"
      and gc = "\<lambda>p. Inr (str ''Dear Ana'')"
      and f = "\<lparr>platform = str ''Email'', message_type = Generic, user_content = str ''x'',
         custom_prompt = [], recipient_name = [], company_name = [], job_title = []\<rparr>"
      and st = "\<lparr>generated_message = None, edited_message = None, show_edit = None\<rparr>"]
  by (simp add: strip_eq_Nil_iff) (simp add: str_def py_isspace_def)

text \<open>
  Claim C3, as the specification words it, fails: a generate action that validation
  rejects leaves the edited slot as it was.
\<close>

theorem generate_rejected_keeps_edit_counterexample:
  "edited_message
     (session
        (generate_button (\<lambda>path. None) (\<lambda>p. Inr (str ''Dear Ana''))
           \<lparr>platform = str ''Email'', message_type = Generic, user_content = [],
            custom_prompt = [], recipient_name = [], company_name = [], job_title = []\<rparr>
           \<lparr>generated_message = Some (str ''Hello''), edited_message = Some (str ''Hi''),
            show_edit = Some True\<rparr>)) =
   Some (str ''Hi'')"
  by (simp add: generate_button_def strip_def)

text \<open>
  Claim C3, amended: a generate action whose generation call succeeds stores the reply,
  sets the edited slot to the empty string and sets the edit flag, whether or not an edit
  took place since the last generate; a generate action that sends no prompt leaves the
  whole session, the edited slot included, as it was.
\<close>

theorem generate_resets_edit:
  "(calls (generate_button fs gc f st) = [p] \<and> gc p = Inr reply \<longrightarrow>
      session (generate_button fs gc f st) =
        st\<lparr>generated_message := Some reply, edited_message := Some [],
           show_edit := Some True\<rparr>) \<and>
   (calls (generate_button fs gc f st) = [] \<longrightarrow> session (generate_button fs gc f st) = st)"
  unfolding generate_button_def
  by (auto split: if_splits sum.splits)

theorem generate_resets_edit_witness:
  "session
     (generate_button (\<lambda>path. None) (\<lambda>p. Inr (str ''Dear Ana''))
        \<lparr>platform = str ''Email'', message_type = Generic,
         user_content = str ''We sell analytics software.'', custom_prompt = [],
         recipient_name = [], company_name = [], job_title = []\<rparr>
        \<lparr>generated_message = Some (str ''Hello''), edited_message = Some (str ''Hi''),
         show_edit = Some True\<rparr>) =
   \<lparr>generated_message = Some (str ''Dear Ana''), edited_message = Some [],
    show_edit = Some True\<rparr> \<and>
   session
     (generate_button (\<lambda>path. None) (\<lambda>p. Inr (str ''Dear Ana''))
        \<lparr>platform = str ''Email'', message_type = Generic, user_content = str '' '',
         custom_prompt = [], recipient_name = [], company_name = [], job_title = []\<rparr>
        \<lparr>generated_message = Some (str ''Hello''), edited_message = Some (str ''Hi''),
         show_edit = Some True\<rparr>) =
   \<lparr>generated_message = Some (str ''Hello''), edited_message = Some (str ''Hi''),
    show_edit = Some True\<rparr>"
proof -
  have rejected: "calls
     (generate_button (\<lambda>path. None) (\<lambda>p. Inr (str ''Dear Ana''))
        \<lparr>platform = str ''Email'', message_type = Generic, user_content = str '' '',
         custom_prompt = [], recipient_name = [], company_name = [], job_title = []\<rparr>
        \<lparr>generated_message = Some (str ''Hello''), edited_message = Some (str ''Hi''),
         show_edit = Some True\<rparr>) = []"
    by (simp add: generate_button_def strip_eq_Nil_iff) (simp add: str_def py_isspace_def)
  show ?thesis
    using generate_resets_edit [where fs = "\<lambda>path. None"
        and gc = "\<lambda>p. Inr (str ''Dear Ana'')" and reply = "str ''Dear Ana''"
        and f = "\<lparr>platform = str ''Email'', message_type = Generic,
         user_content = str ''We sell analytics software.'', custom_prompt = [],
         recipient_name = [], company_name = [], job_title = []\<rparr>"
        and p = "final_prompt
          \<lparr>platform = str ''Email'', message_type = Generic,
           user_content = str ''We sell analytics software.'', custom_prompt = [],
           recipient_name = [], company_name = [], job_title = []\<rparr>
          (dict_get default_prompts (str ''Email'') format_not_found)"
        and st = "\<lparr>generated_message = Some (str ''Hello''),
                    edited_message = Some (str ''Hi''), show_edit = Some True\<rparr>"]
      generate_resets_edit [where fs = "\<lambda>path. None"
        and gc = "\<lambda>p. Inr (str ''Dear Ana'')"
        and f = "\<lparr>platform = str ''Email'', message_type = Generic, user_content = str '' '',
         custom_prompt = [], recipient_name = [], company_name = [], job_title = []\<rparr>"
        and st = "\<lparr>generated_message = Some (str ''Hello''),
                    edited_message = Some (str ''Hi''), show_edit = Some True\<rparr>"]
      generic_email_call rejected
    by simp
qed

text \<open>
  Claim C10, as stated, fails: with a whitespace-only custom instruction, a non-empty
  background and empty name fields, the second check rejects the action and no branch of
  the prompt chain is reached.
\<close>

theorem whitespace_instruction_counterexample:
  "generate_button (\<lambda>path. None) (\<lambda>p. Inr (str ''Dear Ana''))
     \<lparr>platform = str ''Email'', message_type = Personalized,
      user_content = str ''We sell analytics software.'', custom_prompt = str ''  '',
      recipient_name = [], company_name = [], job_title = []\<rparr>
     \<lparr>generated_message = None, edited_message = None, show_edit = None\<rparr> =
   \<lparr>session = \<lparr>generated_message = None, edited_message = None, show_edit = None\<rparr>,
    shown = [Error missing_names_msg], calls = []\<rparr>"
  by (simp add: generate_button_def strip_eq_Nil_iff py_isspace_def) (simp add: str_def)

text \<open>
  Claim C10, amended: for a Personalized action whose custom instruction is non-empty and
  all whitespace, whose background, recipient name and company name are non-empty after
  trimming, and whose template loads, the instruction counts as empty in the first check,
  both checks pass, and the prompt sent is the custom one: the raw whitespace string, the
  background note and the truncated background, without the template.
\<close>

theorem whitespace_instruction_custom_branch:
  assumes "message_type f = Personalized"
    and "custom_prompt f \<noteq> []" and "\<forall>c\<in>set (custom_prompt f). py_isspace c"
    and "strip (user_content f) \<noteq> []"
    and "strip (recipient_name f) \<noteq> []" and "strip (company_name f) \<noteq> []"
    and "load_sales_prompt fs (platform f) = Inr t"
  shows "strip (custom_prompt f) = [] \<and>
         prompt_branch (message_type f) (custom_prompt f) = CustomShape \<and>
         calls (generate_button fs gc f st) =
           [custom_prompt f @ nl @ nl @
            str ''(Here is some background info to help craft the '' @ platform f @
            str '' message:)'' @ nl @ nl @ take 10000 (user_content f)]"
  using assms unfolding generate_button_def
  by (auto simp: strip_eq_Nil_iff prompt_branch_def final_prompt_def slice_to_def
      split: sum.splits)

theorem whitespace_instruction_custom_branch_witness:
  "strip (str ''  '') = [] \<and>
   prompt_branch Personalized (str ''  '') = CustomShape \<and>
   calls
     (generate_button (\<lambda>path. None) (\<lambda>p. Inr (str ''Dear Ana''))
        \<lparr>platform = str ''Email'', message_type = Personalized,
         user_content = str ''We sell analytics software.'', custom_prompt = str ''  '',
         recipient_name = str ''Ana'', company_name = str ''Acme'', job_title = []\<rparr>
        \<lparr>generated_message = None, edited_message = None, show_edit = None\<rparr>) =
   [str ''  '' @ nl @ nl @ str ''(Here is some background info to help craft the '' @
    str ''Email'' @ str '' message:)'' @ nl @ nl @ str ''We sell analytics software.'']"
proof -
  have loaded: "load_sales_prompt (\<lambda>path. None) (str ''Email'') =
      Inr (dict_get default_prompts (str ''Email'') format_not_found)"
    by (simp add: load_sales_prompt_def)
  show ?thesis
    using whitespace_instruction_custom_branch [where fs = "\<lambda>path. None"
        and gc = "\<lambda>p. Inr (str ''Dear Ana'')"
        and f = "\<lparr>platform = str ''Email'', message_type = Personalized,
         user_content = str ''We sell analytics software.'', custom_prompt = str ''  '',
         recipient_name = str ''Ana'', company_name = str ''Acme'', job_title = []\<rparr>"
        and st = "\<lparr>generated_message = None, edited_message = None, show_edit = None\<rparr>"
        and t = "dict_get default_prompts (str ''Email'') format_not_found"]
      loaded
    by (simp add: strip_eq_Nil_iff) (simp add: str_def py_isspace_def)
qed

section \<open>Scrape failures\<close>

lemma scrape_error_not_blank: "strip (str ''Error scraping website: '' @ m) \<noteq> []"
  by (simp add: strip_eq_Nil_iff str_def py_isspace_def)

text \<open>
  Claim C7: when the fetch or the parse raises, the web extractor returns the string
  \<open>Error scraping website:\<close> followed by the text of the error; composing a prompt over
  that string embeds it as the background, under the 10,000-character cut, and a Generic
  generate action over it passes validation and sends that prompt.
\<close>

theorem scrape_failure_in_band:
  assumes "requests_get url = Inl e \<or>
           (requests_get url = Inr html \<and> visible_text html = Inl e)"
  shows "scrape_website requests_get visible_text url =
           str ''Error scraping website: '' @ str_of_exn e \<and>
         final_prompt (f\<lparr>user_content := scrape_website requests_get visible_text url\<rparr>) t =
           final_prompt (f\<lparr>user_content := []\<rparr>) t @
           take 10000 (str ''Error scraping website: '' @ str_of_exn e) \<and>
         (load_sales_prompt fs (platform f) = Inr t \<longrightarrow>
            calls (generate_button fs gc
                     (f\<lparr>message_type := Generic,
                        user_content := scrape_website requests_get visible_text url\<rparr>) st) =
              [t @ nl @ nl @ str ''Generate a **generic '' @ platform f @
               str '' message** using this content:'' @ nl @ nl @
               take 10000 (str ''Error scraping website: '' @ str_of_exn e)])"
proof -
  from assms have r: "scrape_website requests_get visible_text url =
      str ''Error scraping website: '' @ str_of_exn e"
    by (auto simp: scrape_website_def scrape_error_def)
  have p: "final_prompt (f\<lparr>user_content := uc\<rparr>) t =
      final_prompt (f\<lparr>user_content := []\<rparr>) t @ take 10000 uc" for uc
    by (simp add: final_prompt_def slice_to_def split: prompt_shape.splits)
  have g: "calls (generate_button fs gc
                     (f\<lparr>message_type := Generic,
                        user_content := str ''Error scraping website: '' @ str_of_exn e\<rparr>) st) =
              [t @ nl @ nl @ str ''Generate a **generic '' @ platform f @
               str '' message** using this content:'' @ nl @ nl @
               take 10000 (str ''Error scraping website: '' @ str_of_exn e)]"
    if "load_sales_prompt fs (platform f) = Inr t"
    using that scrape_error_not_blank [of "str_of_exn e"]
    by (simp add: generate_button_def final_prompt_def prompt_branch_def slice_to_def
        split: sum.splits)
  show ?thesis
    unfolding r using p [of "str ''Error scraping website: '' @ str_of_exn e"] g by blast
qed

theorem scrape_failure_in_band_witness:
  "scrape_website (\<lambda>url. Inl (Exception (str ''timed out''))) (\<lambda>html. Inr html)
     (str ''http://x.test'') = str ''Error scraping website: timed out'' \<and>
   scrape_website (\<lambda>url. Inr (str ''<p>'')) (\<lambda>html. Inl (Exception (str ''bad markup'')))
     (str ''http://x.test'') = str ''Error scraping website: bad markup'' \<and>
   calls
     (generate_button (\<lambda>path. None) (\<lambda>p. Inr (str ''Dear Ana''))
        \<lparr>platform = str ''SMS'', message_type = Generic,
         user_content =
           scrape_website (\<lambda>url. Inl (Exception (str ''timed out''))) (\<lambda>html. Inr html)
             (str ''http://x.test''),
         custom_prompt = [], recipient_name = [], company_name = [], job_title = []\<rparr>
        \<lparr>generated_message = None, edited_message = None, show_edit = None\<rparr>) =
   [str ''Message format not found.'' @ nl @ nl @ str ''Generate a **generic SMS message** using this content:'' @
    nl @ nl @ str ''Error scraping website: timed out'']"
proof -
  have loaded: "load_sales_prompt (\<lambda>path. None) (str ''SMS'') =
      Inr (str ''Message format not found.'')"
    by (simp add: load_sales_prompt_def dict_get_def default_prompts_def filename_map_def
        format_not_found_def str_inject)
  show ?thesis
    using scrape_failure_in_band [where requests_get = "\<lambda>url. Inl (Exception (str ''timed out''))"
        and visible_text = "\<lambda>html. Inr html" and url = "str ''http://x.test''"
        and e = "Exception (str ''timed out'')" and fs = "\<lambda>path. None"
        and gc = "\<lambda>p. Inr (str ''Dear Ana'')"
        and f = "\<lparr>platform = str ''SMS'', message_type = Generic, user_content = [],
          custom_prompt = [], recipient_name = [], company_name = [], job_title = []\<rparr>"
        and t = "str ''Message format not found.''"
        and st = "\<lparr>generated_message = None, edited_message = None, show_edit = None\<rparr>"]
      scrape_failure_in_band [where requests_get = "\<lambda>url. Inr (str ''<p>'')"
        and visible_text = "\<lambda>html. Inl (Exception (str ''bad markup''))"
        and url = "str ''http://x.test''" and html = "str ''<p>''"
        and e = "Exception (str ''bad markup'')"]
      loaded
    by (simp add: str_def scrape_website_def scrape_error_def)
qed

section \<open>Edit actions\<close>

text \<open>
  Claim C8: an edit action with an instruction that is non-empty after trimming sends
  the preamble, the platform name, the trimmed instruction, the marker
  \<open>Original Message:\<close> and the stored generated text. The prompt does not depend on the
  edited slot, the edit leaves the generated slot as it was, and a second edit again
  revises the same generated text. An instruction that is empty after trimming sends
  nothing.
\<close>

theorem edit_revises_generated:
  assumes "generated_message st = Some g" and "g \<noteq> []" and "show_edit st = Some True"
    and "strip instruction \<noteq> []"
  shows "calls (edit_button gc pf instruction st) =
           [str ''Please revise the following '' @ pf @
            str '' message based on this instruction:'' @ nl @
            strip instruction @ nl @ nl @ str ''Original Message:'' @ nl @ g] \<and>
         calls (edit_button gc pf instruction (st\<lparr>edited_message := previous\<rparr>)) =
           calls (edit_button gc pf instruction st) \<and>
         generated_message (session (edit_button gc pf instruction st)) = Some g \<and>
         (strip instruction' \<noteq> [] \<longrightarrow>
            calls (edit_button gc' pf instruction' (session (edit_button gc pf instruction st))) =
              [str ''Please revise the following '' @ pf @
               str '' message based on this instruction:'' @ nl @
               strip instruction' @ nl @ nl @ str ''Original Message:'' @ nl @ g]) \<and>
         (strip blank = [] \<longrightarrow> calls (edit_button gc pf blank st) = [])"
  using assms
  by (auto simp: edit_button_def edit_available_def edit_prompt_def split: sum.splits)

theorem edit_revises_generated_witness:
  "calls
     (edit_button (\<lambda>p. Inr (str ''Hey''))  (str ''Email'') (str '' shorter '')
        \<lparr>generated_message = Some (str ''Hello''), edited_message = Some (str ''Hi''),
         show_edit = Some True\<rparr>) =
   [str ''Please revise the following Email message based on this instruction:'' @ nl @
    str ''shorter'' @ nl @ nl @ str ''Original Message:'' @ nl @ str ''Hello''] \<and>
   session
     (edit_button (\<lambda>p. Inr (str ''Hey''))  (str ''Email'') (str '' shorter '')
        \<lparr>generated_message = Some (str ''Hello''), edited_message = Some (str ''Hi''),
         show_edit = Some True\<rparr>) =
   \<lparr>generated_message = Some (str ''Hello''), edited_message = Some (str ''Hey''),
    show_edit = Some True\<rparr>"
proof -
  have s: "strip (str '' shorter '') = str ''shorter''"
    by (simp add: strip_def str_def py_isspace_def)
  have r: "session
     (edit_button (\<lambda>p. Inr (str ''Hey''))  (str ''Email'') (str '' shorter '')
        \<lparr>generated_message = Some (str ''Hello''), edited_message = Some (str ''Hi''),
         show_edit = Some True\<rparr>) =
   \<lparr>generated_message = Some (str ''Hello''), edited_message = Some (str ''Hey''),
    show_edit = Some True\<rparr>"
    by (simp add: edit_button_def edit_available_def s) (simp add: str_def)
  show ?thesis
    using edit_revises_generated [where gc = "\<lambda>p. Inr (str ''Hey'')" and pf = "str ''Email''"
        and instruction = "str '' shorter ''" and g = "str ''Hello''"
        and st = "\<lparr>generated_message = Some (str ''Hello''),
                    edited_message = Some (str ''Hi''), show_edit = Some True\<rparr>"]
      s r
    by (simp add: str_def)
qed

end
